theory Spec2Isabelle
  imports Main
begin

section \<open>Data model (types.ts)\<close>

text \<open>
  The enums \<open>ShotResult\<close> and \<open>CourtPosition\<close> and the interfaces \<open>Shot\<close>,
  \<open>DrillStep\<close> and \<open>DrillSession\<close>. Field names are the source's, except that
  \<open>id\<close> (a HOL constant) and the \<open>position\<close> field shared by \<open>Shot\<close> and
  \<open>DrillStep\<close> carry the name of their interface as a suffix. The optional numbers
  \<open>targetMakes?\<close> and \<open>targetAttempts?\<close> are \<open>int option\<close>, \<open>None\<close> being
  \<open>undefined\<close>: the thresholds the code builds are integers, the literals of the
  presets and what \<open>parseInt\<close> returns. \<open>currentStepIndex\<close> starts at 0 and is only
  ever incremented, so it is a \<open>nat\<close>; so are the clock readings of \<open>Date.now()\<close>.
\<close>

datatype ShotResult = MAKE | MISS

datatype CourtPosition = LEFT | CENTER | RIGHT

record Shot =
  id_shot :: string
  result :: ShotResult
  position_shot :: CourtPosition
  timestamp :: nat

record DrillStep =
  position :: CourtPosition
  targetMakes :: "int option"
  targetAttempts :: "int option"

record DrillSession =
  id_session :: string
  name :: string
  steps :: "DrillStep list"
  currentStepIndex :: nat
  shots :: "Shot list"
  isActive :: bool
  completed :: bool

text \<open>Reading a property of \<open>undefined\<close> throws a \<open>TypeError\<close>.\<close>

datatype error = TypeError

section \<open>Strings of the JavaScript runtime\<close>

text \<open>
  \<open>Number.prototype.toString\<close> on a count or a clock reading: the decimal digits. An
  array holds fewer than \<open>2^32\<close> elements and \<open>Date.now()\<close> is at most \<open>8.64e15\<close>;
  both are integers that a number holds and prints exactly.
\<close>

function toString_nat :: "nat \<Rightarrow> string" where
  "toString_nat n =
     (if n < 10 then [''0123456789'' ! n]
      else toString_nat (n div 10) @ [''0123456789'' ! (n mod 10)])"
  by pat_completeness auto
termination
  by (relation "measure id") auto

declare toString_nat.simps [simp del]

text \<open>
  \<open>Number.prototype.toString\<close> on a threshold, an integer of any size. Up to \<open>2^53\<close>
  in absolute value the digits are the integer's own, with a leading minus sign. Past
  that the runtime prints the shortest digits that read back as the same number, and from
  \<open>1e21\<close> on in exponent notation (\<open>1e+21\<close>); that rendering is the runtime's and is
  the parameter \<open>big\<close>.
\<close>

definition toString_int :: "(int \<Rightarrow> string) \<Rightarrow> int \<Rightarrow> string" where
  "toString_int big i =
     (if \<bar>i\<bar> \<le> 9007199254740992
      then (if i < 0 then ''-'' @ toString_nat (nat (- i)) else toString_nat (nat i))
      else big i)"

text \<open>An optional number inside a template literal: \<open>undefined\<close> prints as its name.\<close>

definition toString_opt :: "(int \<Rightarrow> string) \<Rightarrow> int option \<Rightarrow> string" where
  "toString_opt big t = (case t of None \<Rightarrow> ''undefined'' | Some i \<Rightarrow> toString_int big i)"

text \<open>The string values of the enum \<open>CourtPosition\<close>.\<close>

fun toString_pos :: "CourtPosition \<Rightarrow> string" where
  "toString_pos LEFT = ''LEFT''"
| "toString_pos CENTER = ''CENTER''"
| "toString_pos RIGHT = ''RIGHT''"

section \<open>The drill progression engine (App.tsx)\<close>

text \<open>
  \<open>startDrill\<close> builds the session; \<open>Date.now()\<close> is the parameter \<open>now\<close>. The calls
  \<open>setSession\<close> and \<open>setCurrentView\<close> store the result; the session returned here is
  the one stored.
\<close>

definition startDrill :: "DrillStep list \<Rightarrow> nat \<Rightarrow> DrillSession" where
  "startDrill stps now =
     \<lparr> id_session = toString_nat now,
       name = ''Training Session'',
       steps = stps,
       currentStepIndex = 0,
       shots = [],
       isActive = True,
       completed = False \<rparr>"

text \<open>
  \<open>t && n >= t\<close> for an optional threshold \<open>t\<close> and a count \<open>n\<close>: \<open>undefined\<close> and
  \<open>0\<close> are falsy.
\<close>

definition reached :: "int option \<Rightarrow> nat \<Rightarrow> bool" where
  "reached t n = (case t of None \<Rightarrow> False | Some k \<Rightarrow> k \<noteq> 0 \<and> k \<le> int n)"

text \<open>
  The function passed to \<open>setSession\<close> in \<open>handleShotRecorded\<close>, applied to a session
  \<open>prev\<close> that is not \<open>null\<close>. \<open>prev.steps[prev.currentStepIndex]\<close> is \<open>undefined\<close>
  out of range, and \<open>step.position\<close> then throws. The haptic and audio feedback of a
  completed step (\<open>vibrate\<close>, \<open>playZoneChangeSound\<close>) does not touch the session and is
  left out.
\<close>

definition updateSession :: "DrillSession \<Rightarrow> Shot \<Rightarrow> error + DrillSession" where
  "updateSession prev newShot =
     (let nextShots = shots prev @ [newShot] in
      if length (steps prev) \<le> currentStepIndex prev then Inl TypeError
      else
        let step = steps prev ! currentStepIndex prev in
        if position_shot newShot \<noteq> position step then Inr (prev\<lparr>shots := nextShots\<rparr>)
        else
          let relevantShots = filter (\<lambda>s. position_shot s = position step) nextShots;
              makes = length (filter (\<lambda>s. result s = MAKE) relevantShots);
              attempts = length relevantShots;
              stepComplete =
                (if reached (targetAttempts step) attempts then True
                 else if reached (targetMakes step) makes then True
                 else False)
          in
            if stepComplete then
              (let nextIndex = currentStepIndex prev + 1 in
               if length (steps prev) \<le> nextIndex
               then Inr (prev\<lparr>shots := nextShots, currentStepIndex := nextIndex,
                               isActive := False, completed := True\<rparr>)
               else Inr (prev\<lparr>shots := nextShots, currentStepIndex := nextIndex\<rparr>))
            else Inr (prev\<lparr>shots := nextShots\<rparr>))"

text \<open>
  \<open>handleShotRecorded\<close>. A handler is created by a render and closes over the
  \<open>session\<close> of that render; the guard tests that session. The function it passes to
  \<open>setSession\<close> receives the state of the moment, \<open>prev\<close>, and tests only that it is
  not \<open>null\<close>. The two differ whenever the handler is older than the state: the camera
  view registers the handler of its first render for the whole drill
  (\<open>useEffect(..., [])\<close>), and nothing stops the detector's calls when the drill
  completes. So \<open>session\<close> and \<open>prev\<close> are two arguments. The result is the state
  afterwards, or the exception thrown inside the updater. The two readings of
  \<open>Date.now()\<close> are \<open>now1\<close> (the id) and \<open>now2\<close> (the timestamp).
\<close>

definition handleShotRecorded ::
  "DrillSession option \<Rightarrow> DrillSession option \<Rightarrow> ShotResult \<Rightarrow> CourtPosition \<Rightarrow> nat \<Rightarrow> nat
     \<Rightarrow> error + DrillSession option" where
  "handleShotRecorded session prev res pos now1 now2 =
     (case session of
        None \<Rightarrow> Inr prev
      | Some c \<Rightarrow>
          if \<not> isActive c then Inr prev
          else
            (case prev of
               None \<Rightarrow> Inr None
             | Some p \<Rightarrow>
                 (case updateSession p
                         \<lparr> id_shot = toString_nat now1, result = res,
                           position_shot = pos, timestamp = now2 \<rparr> of
                    Inl e \<Rightarrow> Inl e
                  | Inr s \<Rightarrow> Inr (Some s))))"

text \<open>The guard lets a call through: the handler's session is there and active.\<close>

definition passesGuard :: "DrillSession option \<Rightarrow> bool" where
  "passesGuard session = (case session of None \<Rightarrow> False | Some c \<Rightarrow> isActive c)"

text \<open>
  A stream of classified shots handled in arrival order. Each event comes with the
  session its handler closes over (the first component) and its two clock readings; an
  exception ends the run.
\<close>

type_synonym event = "DrillSession option \<times> ShotResult \<times> CourtPosition \<times> nat \<times> nat"

fun applyShots :: "DrillSession option \<Rightarrow> event list \<Rightarrow> error + DrillSession option" where
  "applyShots prev [] = Inr prev"
| "applyShots prev ((session, res, pos, now1, now2) # es) =
     (case handleShotRecorded session prev res pos now1 now2 of
        Inl e \<Rightarrow> Inl e
      | Inr prev' \<Rightarrow> applyShots prev' es)"

text \<open>
  \<open>session?.completed\<close>, the flag the completion effect watches: \<open>undefined\<close>, hence
  falsy, while there is no session.
\<close>

definition completedOf :: "DrillSession option \<Rightarrow> bool" where
  "completedOf session = (case session of None \<Rightarrow> False | Some s \<Rightarrow> completed s)"

text \<open>
  The states a run goes through, the first one included; the run stops at an exception.
\<close>

fun sessionTrace :: "DrillSession option \<Rightarrow> event list \<Rightarrow> DrillSession option list" where
  "sessionTrace prev [] = [prev]"
| "sessionTrace prev ((session, res, pos, now1, now2) # es) =
     prev #
     (case handleShotRecorded session prev res pos now1 now2 of
        Inl e \<Rightarrow> []
      | Inr prev' \<Rightarrow> sessionTrace prev' es)"

text \<open>The number of places where a flag goes from false to true along a list.\<close>

fun risingEdges :: "bool list \<Rightarrow> nat" where
  "risingEdges (a # b # bs) = (if \<not> a \<and> b then 1 else 0) + risingEdges (b # bs)"
| "risingEdges bs = 0"

text \<open>
  The counts \<open>attempts\<close> and \<open>makes\<close> of the engine, as functions of a zone and a
  log: the shots of the log at that zone, and the made ones among them.
\<close>

definition attemptsAt :: "CourtPosition \<Rightarrow> Shot list \<Rightarrow> nat" where
  "attemptsAt z log = length (filter (\<lambda>s. position_shot s = z) log)"

definition makesAt :: "CourtPosition \<Rightarrow> Shot list \<Rightarrow> nat" where
  "makesAt z log =
     length (filter (\<lambda>s. result s = MAKE) (filter (\<lambda>s. position_shot s = z) log))"

text \<open>
  The invariant of the data model: the index is within \<open>0..steps.length\<close>, it equals
  \<open>steps.length\<close> exactly when the session is completed, and \<open>isActive\<close> is the
  negation of \<open>completed\<close>.
\<close>

definition session_inv :: "DrillSession \<Rightarrow> bool" where
  "session_inv s =
     (currentStepIndex s \<le> length (steps s) \<and>
      (currentStepIndex s = length (steps s)) = completed s \<and>
      isActive s = (\<not> completed s))"

section \<open>The presentation projection (App.tsx)\<close>

text \<open>Truthiness of an optional number: \<open>undefined\<close> and \<open>0\<close> are falsy.\<close>

definition truthy :: "int option \<Rightarrow> bool" where
  "truthy t = (case t of None \<Rightarrow> False | Some k \<Rightarrow> k \<noteq> 0)"

text \<open>
  \<open>getInstruction\<close>. \<open>step.targetMakes || step.targetAttempts\<close> is the first operand
  when it is truthy and the second otherwise. \<open>big\<close> is the runtime's rendering of
  large numbers, see \<open>toString_int\<close>.
\<close>

definition getInstruction :: "(int \<Rightarrow> string) \<Rightarrow> DrillSession option \<Rightarrow> string" where
  "getInstruction big session =
     (case session of
        None \<Rightarrow> ''Select a drill''
      | Some s \<Rightarrow>
          if completed s then ''Drill Complete!''
          else if length (steps s) \<le> currentStepIndex s then ''Loading...''
          else
            let step = steps s ! currentStepIndex s;
                relevantShots = filter (\<lambda>x. position_shot x = position step) (shots s);
                currentCount =
                  (if truthy (targetMakes step)
                   then length (filter (\<lambda>x. result x = MAKE) relevantShots)
                   else length relevantShots);
                target =
                  (if truthy (targetMakes step) then targetMakes step
                   else targetAttempts step)
            in ''Move to '' @ toString_pos (position step) @ '': '' @
               toString_nat currentCount @ '' / '' @ toString_opt big target)"

section \<open>Program construction (DrillSelector.tsx)\<close>

text \<open>
  The step lists of \<open>predefinedDrills\<close>, in the order of the source; the names and
  descriptions shown on the buttons are left out.
\<close>

definition predefinedDrills :: "DrillStep list list" where
  "predefinedDrills =
     [ [ \<lparr>position = LEFT, targetMakes = None, targetAttempts = Some 5\<rparr>,
         \<lparr>position = CENTER, targetMakes = None, targetAttempts = Some 5\<rparr>,
         \<lparr>position = RIGHT, targetMakes = None, targetAttempts = Some 5\<rparr> ],
       [ \<lparr>position = LEFT, targetMakes = Some 3, targetAttempts = None\<rparr>,
         \<lparr>position = CENTER, targetMakes = Some 3, targetAttempts = None\<rparr>,
         \<lparr>position = RIGHT, targetMakes = Some 3, targetAttempts = None\<rparr> ],
       [ \<lparr>position = CENTER, targetMakes = None, targetAttempts = Some 3\<rparr> ] ]"

text \<open>
  The value the number input stores in \<open>shotsPerPosition\<close> or \<open>targetMakes\<close>:
  \<open>parseInt(e.target.value) || 1\<close>. The argument is what \<open>parseInt\<close> returned,
  \<open>None\<close> for \<open>NaN\<close>; \<open>NaN\<close> and \<open>0\<close> are falsy. The attribute \<open>min="1"\<close> of the
  input bounds its arrows, not what is typed.
\<close>

definition onChange_value :: "int option \<Rightarrow> int" where
  "onChange_value parsed = (case parsed of None \<Rightarrow> 1 | Some v \<Rightarrow> if v = 0 then 1 else v)"

text \<open>
  \<open>handleCreateCustom\<close>, from the component state it reads. \<open>None\<close> is the early
  return after the alert; \<open>Some stps\<close> is the call \<open>onStartDrill(stps)\<close>, which is
  \<open>startDrill\<close>. \<open>resetCustom\<close>, which clears the builder afterwards, is left out.
\<close>

definition handleCreateCustom ::
  "CourtPosition list \<Rightarrow> bool \<Rightarrow> int \<Rightarrow> int \<Rightarrow> DrillStep list option" where
  "handleCreateCustom selectedPositions isMakeBased shotsPerPosition targetMakes_state =
     (if length selectedPositions = 0 then None
      else Some (map (\<lambda>pos.
             if isMakeBased
             then \<lparr>position = pos, targetMakes = Some targetMakes_state, targetAttempts = None\<rparr>
             else \<lparr>position = pos, targetMakes = None, targetAttempts = Some shotsPerPosition\<rparr>)
           selectedPositions))"

text \<open>
  The validity of a program in the words of the specification: a step has exactly one
  of the two thresholds, and it is at least 1; a program has at least one step.
\<close>

definition spec_valid_step :: "DrillStep \<Rightarrow> bool" where
  "spec_valid_step st =
     (case (targetAttempts st, targetMakes st) of
        (Some a, None) \<Rightarrow> 1 \<le> a
      | (None, Some m) \<Rightarrow> 1 \<le> m
      | _ \<Rightarrow> False)"

definition spec_valid_program :: "DrillStep list \<Rightarrow> bool" where
  "spec_valid_program stps = (stps \<noteq> [] \<and> list_all spec_valid_step stps)"

section \<open>Basic facts about one call and about runs\<close>

lemma toString_nat_digits:
  "toString_nat 0 = ''0''" "toString_nat (Suc 0) = ''1''" "toString_nat 1 = ''1''"
  "toString_nat 2 = ''2''" "toString_nat 3 = ''3''"
  by (simp_all add: toString_nat.simps)

lemma updateSession_index:
  "updateSession s sh = Inr s' \<Longrightarrow>
     currentStepIndex s' = currentStepIndex s \<or> currentStepIndex s' = currentStepIndex s + 1"
  by (auto simp: updateSession_def Let_def split: if_splits)

lemma updateSession_completed:
  "updateSession s sh = Inr s' \<Longrightarrow> completed s \<Longrightarrow> completed s'"
  by (auto simp: updateSession_def Let_def split: if_splits)

text \<open>
  The updater sets \<open>completed\<close> on one branch only: the shot is at the zone of the
  current step, one of the two threshold tests holds on the log with that shot, and the
  step is the last one.
\<close>

lemma updateSession_terminal:
  assumes "updateSession s sh = Inr s'" and "\<not> completed s" and "completed s'"
  shows "steps s' = steps s \<and> shots s' = shots s @ [sh] \<and>
         currentStepIndex s + 1 = length (steps s) \<and>
         currentStepIndex s' = length (steps s') \<and> \<not> isActive s' \<and>
         position_shot sh = position (steps s ! currentStepIndex s) \<and>
         (reached (targetAttempts (steps s ! currentStepIndex s))
            (attemptsAt (position_shot sh) (shots s')) \<or>
          reached (targetMakes (steps s ! currentStepIndex s))
            (makesAt (position_shot sh) (shots s')))"
  using assms
  by (auto simp: updateSession_def Let_def attemptsAt_def makesAt_def split: if_splits)

lemma updateSession_last_step:
  assumes "currentStepIndex s + 1 = length (steps s)"
    and "position_shot sh = position (steps s ! currentStepIndex s)"
    and "reached (targetAttempts (steps s ! currentStepIndex s))
            (attemptsAt (position_shot sh) (shots s @ [sh])) \<or>
         reached (targetMakes (steps s ! currentStepIndex s))
            (makesAt (position_shot sh) (shots s @ [sh]))"
  shows "updateSession s sh =
           Inr (s\<lparr>shots := shots s @ [sh], currentStepIndex := length (steps s),
                   isActive := False, completed := True\<rparr>)"
  using assms
  by (auto simp: updateSession_def Let_def attemptsAt_def makesAt_def)

lemma updateSession_inv_kept:
  "updateSession s sh = Inr s' \<Longrightarrow> session_inv s \<Longrightarrow> session_inv s'"
  by (auto simp: updateSession_def Let_def session_inv_def split: if_splits)

lemma updateSession_inv_returns:
  "session_inv s \<Longrightarrow> isActive s \<Longrightarrow> \<exists>s'. updateSession s sh = Inr s' \<and> session_inv s'"
  by (auto simp: updateSession_def Let_def session_inv_def)

text \<open>A call that the guard stops leaves the state as it is.\<close>

lemma handle_blocked:
  "\<not> passesGuard session \<Longrightarrow> handleShotRecorded session prev res pos now1 now2 = Inr prev"
  by (simp add: handleShotRecorded_def passesGuard_def split: option.splits)

text \<open>A call that the guard lets through runs the updater on the state.\<close>

lemma handle_passed:
  "passesGuard session \<Longrightarrow>
     handleShotRecorded session (Some s) res pos now1 now2 =
       (case updateSession s \<lparr>id_shot = toString_nat now1, result = res,
                               position_shot = pos, timestamp = now2\<rparr> of
          Inl e \<Rightarrow> Inl e
        | Inr s' \<Rightarrow> Inr (Some s'))"
  by (simp add: handleShotRecorded_def passesGuard_def split: option.splits)

text \<open>Every returning call is the identity or a returning run of the updater.\<close>

lemma handle_cases:
  assumes "handleShotRecorded session (Some s) res pos now1 now2 = Inr r"
  obtains "r = Some s"
  | s' where "r = Some s'" and "passesGuard session"
      and "updateSession s \<lparr>id_shot = toString_nat now1, result = res,
                             position_shot = pos, timestamp = now2\<rparr> = Inr s'"
proof (cases "passesGuard session")
  case False
  with assms handle_blocked[OF False, of "Some s" res pos now1 now2] that(1)
  show thesis by simp
next
  case True
  with assms handle_passed[OF True, of s res pos now1 now2] that(2)
  show thesis by (auto split: sum.splits)
qed

lemma handle_Some:
  "handleShotRecorded session (Some s) res pos now1 now2 = Inr r \<Longrightarrow> \<exists>s'. r = Some s'"
  by (erule handle_cases) auto

lemma handle_index:
  "handleShotRecorded session (Some s) res pos now1 now2 = Inr (Some s') \<Longrightarrow>
     currentStepIndex s' = currentStepIndex s \<or> currentStepIndex s' = currentStepIndex s + 1"
  by (erule handle_cases) (auto dest: updateSession_index)

lemma handle_completed:
  "handleShotRecorded session (Some s) res pos now1 now2 = Inr (Some s') \<Longrightarrow> completed s \<Longrightarrow>
     completed s'"
  by (erule handle_cases) (auto dest: updateSession_completed)

lemma handle_inv_kept:
  "handleShotRecorded session (Some s) res pos now1 now2 = Inr (Some s') \<Longrightarrow> session_inv s \<Longrightarrow>
     session_inv s'"
  by (erule handle_cases) (auto dest: updateSession_inv_kept)

lemma handle_completedOf:
  "handleShotRecorded session prev res pos now1 now2 = Inr prev' \<Longrightarrow> completedOf prev \<Longrightarrow>
     completedOf prev'"
  by (cases prev)
     (auto simp: completedOf_def dest: handle_completed handle_Some split: option.splits)

lemma applyShots_append:
  "applyShots prev (xs @ ys) =
     (case applyShots prev xs of Inl e \<Rightarrow> Inl e | Inr prev' \<Rightarrow> applyShots prev' ys)"
  by (induction xs arbitrary: prev) (auto split: sum.splits)

text \<open>
  The first call of a run that ends well ends well, on a session, and the rest of the
  run starts there.
\<close>

lemma applyShots_Cons_Some:
  assumes "applyShots (Some s) ((session, res, pos, n1, n2) # es) = Inr (Some s')"
  obtains m where "handleShotRecorded session (Some s) res pos n1 n2 = Inr (Some m)"
    and "applyShots (Some m) es = Inr (Some s')"
proof -
  from assms obtain r where r: "handleShotRecorded session (Some s) res pos n1 n2 = Inr r"
    and rest: "applyShots r es = Inr (Some s')"
    by (auto split: sum.splits)
  from handle_Some[OF r] obtain m where "r = Some m" by blast
  with r rest that show thesis by simp
qed

lemma applyShots_index:
  "applyShots (Some s) es = Inr (Some s') \<Longrightarrow> currentStepIndex s \<le> currentStepIndex s'"
proof (induction es arbitrary: s)
  case Nil
  then show ?case by simp
next
  case (Cons e es)
  obtain c res pos n1 n2 where e: "e = (c, res, pos, n1, n2)" by (cases e) auto
  from Cons.prems e have "applyShots (Some s) ((c, res, pos, n1, n2) # es) = Inr (Some s')"
    by simp
  then obtain m where
    m: "handleShotRecorded c (Some s) res pos n1 n2 = Inr (Some m)"
    and rest: "applyShots (Some m) es = Inr (Some s')"
    by (rule applyShots_Cons_Some)
  from handle_index[OF m] have "currentStepIndex s \<le> currentStepIndex m" by auto
  moreover from Cons.IH[OF rest] have "currentStepIndex m \<le> currentStepIndex s'" .
  ultimately show ?case by simp
qed

lemma applyShots_completed:
  "applyShots (Some s) es = Inr (Some s') \<Longrightarrow> completed s \<Longrightarrow> completed s'"
proof (induction es arbitrary: s)
  case Nil
  then show ?case by simp
next
  case (Cons e es)
  obtain c res pos n1 n2 where e: "e = (c, res, pos, n1, n2)" by (cases e) auto
  from Cons.prems(1) e have "applyShots (Some s) ((c, res, pos, n1, n2) # es) = Inr (Some s')"
    by simp
  then obtain m where
    m: "handleShotRecorded c (Some s) res pos n1 n2 = Inr (Some m)"
    and rest: "applyShots (Some m) es = Inr (Some s')"
    by (rule applyShots_Cons_Some)
  from handle_completed[OF m Cons.prems(2)] have "completed m" .
  with Cons.IH[OF rest] show ?case .
qed

lemma applyShots_inv_kept:
  "applyShots (Some s) es = Inr (Some s') \<Longrightarrow> session_inv s \<Longrightarrow> session_inv s'"
proof (induction es arbitrary: s)
  case Nil
  then show ?case by simp
next
  case (Cons e es)
  obtain c res pos n1 n2 where e: "e = (c, res, pos, n1, n2)" by (cases e) auto
  from Cons.prems(1) e have "applyShots (Some s) ((c, res, pos, n1, n2) # es) = Inr (Some s')"
    by simp
  then obtain m where
    m: "handleShotRecorded c (Some s) res pos n1 n2 = Inr (Some m)"
    and rest: "applyShots (Some m) es = Inr (Some s')"
    by (rule applyShots_Cons_Some)
  from handle_inv_kept[OF m Cons.prems(2)] have "session_inv m" .
  with Cons.IH[OF rest] show ?case .
qed

section \<open>Shots after completion\<close>

text \<open>
  C2. A shot that arrives after completion through a handler created while the session
  was active is not ignored. On the one-step program CENTER with 1 attempt, with the
  handler of the first render: the first shot at CENTER completes the drill, the session
  is no longer active, and the next shot through the same handler passes the guard, finds
  no step at the index and throws. (Through a handler created after completion the guard
  stops the call, see \<open>handle_blocked\<close>.)
\<close>

theorem shot_after_completion_throws:
  "handleShotRecorded
     (Some (startDrill [\<lparr>position = CENTER, targetMakes = None, targetAttempts = Some 1\<rparr>] 0))
     (Some (startDrill [\<lparr>position = CENTER, targetMakes = None, targetAttempts = Some 1\<rparr>] 0))
     MAKE CENTER 1 1 =
   Inr (Some \<lparr>id_session = ''0'', name = ''Training Session'',
          steps = [\<lparr>position = CENTER, targetMakes = None, targetAttempts = Some 1\<rparr>],
          currentStepIndex = 1,
          shots = [\<lparr>id_shot = ''1'', result = MAKE, position_shot = CENTER, timestamp = 1\<rparr>],
          isActive = False, completed = True\<rparr>) \<and>
   handleShotRecorded
     (Some (startDrill [\<lparr>position = CENTER, targetMakes = None, targetAttempts = Some 1\<rparr>] 0))
     (Some \<lparr>id_session = ''0'', name = ''Training Session'',
          steps = [\<lparr>position = CENTER, targetMakes = None, targetAttempts = Some 1\<rparr>],
          currentStepIndex = 1,
          shots = [\<lparr>id_shot = ''1'', result = MAKE, position_shot = CENTER, timestamp = 1\<rparr>],
          isActive = False, completed = True\<rparr>)
     MAKE CENTER 2 2 = Inl TypeError \<and>
   applyShots
     (Some (startDrill [\<lparr>position = CENTER, targetMakes = None, targetAttempts = Some 1\<rparr>] 0))
     [(Some (startDrill [\<lparr>position = CENTER, targetMakes = None, targetAttempts = Some 1\<rparr>] 0),
         MAKE, CENTER, 1, 1),
      (Some (startDrill [\<lparr>position = CENTER, targetMakes = None, targetAttempts = Some 1\<rparr>] 0),
         MAKE, CENTER, 2, 2)] = Inl TypeError"
  by (simp add: handleShotRecorded_def updateSession_def Let_def reached_def startDrill_def
        toString_nat_digits)

section \<open>Off-zone shots\<close>

text \<open>
  C3. Through a handler whose session is active, on a state with a current step, a shot
  whose zone is not the zone of that step is appended to the log and nothing else
  changes: the result is the state with the new log, so the step index, both flags and
  the steps are the old ones. (The applyShot of an active session is the case where the
  handler's session is the state.)
\<close>

theorem off_zone_shot_only_logged:
  assumes "isActive c" and "currentStepIndex s < length (steps s)"
    and "pos \<noteq> position (steps s ! currentStepIndex s)"
  shows "handleShotRecorded (Some c) (Some s) res pos now1 now2 =
           Inr (Some (s\<lparr>shots := shots s @
              [\<lparr>id_shot = toString_nat now1, result = res,
                position_shot = pos, timestamp = now2\<rparr>]\<rparr>))"
  using assms by (simp add: handleShotRecorded_def updateSession_def Let_def)

theorem off_zone_shot_only_logged_witness:
  "isActive (startDrill [\<lparr>position = CENTER, targetMakes = None, targetAttempts = Some 1\<rparr>] 0) \<and>
   currentStepIndex
       (startDrill [\<lparr>position = CENTER, targetMakes = None, targetAttempts = Some 1\<rparr>] 0)
     < length (steps
       (startDrill [\<lparr>position = CENTER, targetMakes = None, targetAttempts = Some 1\<rparr>] 0)) \<and>
   handleShotRecorded
     (Some (startDrill [\<lparr>position = CENTER, targetMakes = None, targetAttempts = Some 1\<rparr>] 0))
     (Some (startDrill [\<lparr>position = CENTER, targetMakes = None, targetAttempts = Some 1\<rparr>] 0))
     MAKE LEFT 1 2 =
   Inr (Some \<lparr>id_session = ''0'', name = ''Training Session'',
          steps = [\<lparr>position = CENTER, targetMakes = None, targetAttempts = Some 1\<rparr>],
          currentStepIndex = 0,
          shots = [\<lparr>id_shot = ''1'', result = MAKE, position_shot = LEFT, timestamp = 2\<rparr>],
          isActive = True, completed = False\<rparr>)"
  using off_zone_shot_only_logged
    [of "startDrill [\<lparr>position = CENTER, targetMakes = None, targetAttempts = Some 1\<rparr>] 0"
        "startDrill [\<lparr>position = CENTER, targetMakes = None, targetAttempts = Some 1\<rparr>] 0"
        LEFT MAKE 1 2]
  by (simp add: startDrill_def toString_nat_digits)

section \<open>Monotonicity of the step index\<close>

text \<open>
  C5. One call, through any handler, leaves \<open>currentStepIndex\<close> as it is or adds
  exactly one to it; hence over any run of calls the index does not decrease.
\<close>

theorem step_index_monotone:
  "(handleShotRecorded session (Some s) res pos now1 now2 = Inr (Some s') \<longrightarrow>
      currentStepIndex s' = currentStepIndex s \<or> currentStepIndex s' = currentStepIndex s + 1) \<and>
   (applyShots (Some t) es = Inr (Some t') \<longrightarrow> currentStepIndex t \<le> currentStepIndex t')"
  using handle_index applyShots_index by blast

theorem step_index_monotone_witness:
  "handleShotRecorded
     (Some (startDrill [\<lparr>position = CENTER, targetMakes = None, targetAttempts = Some 1\<rparr>] 0))
     (Some (startDrill [\<lparr>position = CENTER, targetMakes = None, targetAttempts = Some 1\<rparr>] 0))
     MAKE CENTER 1 1 =
   Inr (Some \<lparr>id_session = ''0'', name = ''Training Session'',
          steps = [\<lparr>position = CENTER, targetMakes = None, targetAttempts = Some 1\<rparr>],
          currentStepIndex = 1,
          shots = [\<lparr>id_shot = ''1'', result = MAKE, position_shot = CENTER, timestamp = 1\<rparr>],
          isActive = False, completed = True\<rparr>) \<and>
   applyShots
     (Some (startDrill [\<lparr>position = CENTER, targetMakes = None, targetAttempts = Some 1\<rparr>] 0))
     [(Some (startDrill [\<lparr>position = CENTER, targetMakes = None, targetAttempts = Some 1\<rparr>] 0),
         MAKE, LEFT, 1, 1),
      (Some (startDrill [\<lparr>position = CENTER, targetMakes = None, targetAttempts = Some 1\<rparr>] 0),
         MAKE, CENTER, 2, 2)] =
   Inr (Some \<lparr>id_session = ''0'', name = ''Training Session'',
          steps = [\<lparr>position = CENTER, targetMakes = None, targetAttempts = Some 1\<rparr>],
          currentStepIndex = 1,
          shots = [\<lparr>id_shot = ''1'', result = MAKE, position_shot = LEFT, timestamp = 1\<rparr>,
                   \<lparr>id_shot = ''2'', result = MAKE, position_shot = CENTER, timestamp = 2\<rparr>],
          isActive = False, completed = True\<rparr>) \<and>
   currentStepIndex
       (startDrill [\<lparr>position = CENTER, targetMakes = None, targetAttempts = Some 1\<rparr>] 0)
     \<le> (1::nat)"
  using step_index_monotone
    [of "Some (startDrill [\<lparr>position = CENTER, targetMakes = None, targetAttempts = Some 1\<rparr>] 0)"
        "startDrill [\<lparr>position = CENTER, targetMakes = None, targetAttempts = Some 1\<rparr>] 0"
        MAKE CENTER 1 1
        "\<lparr>id_session = ''0'', name = ''Training Session'',
          steps = [\<lparr>position = CENTER, targetMakes = None, targetAttempts = Some 1\<rparr>],
          currentStepIndex = 1,
          shots = [\<lparr>id_shot = ''1'', result = MAKE, position_shot = CENTER, timestamp = 1\<rparr>],
          isActive = False, completed = True\<rparr>"
        "startDrill [\<lparr>position = CENTER, targetMakes = None, targetAttempts = Some 1\<rparr>] 0"
        "[(Some (startDrill [\<lparr>position = CENTER, targetMakes = None, targetAttempts = Some 1\<rparr>] 0),
             MAKE, LEFT, 1, 1),
          (Some (startDrill [\<lparr>position = CENTER, targetMakes = None, targetAttempts = Some 1\<rparr>] 0),
             MAKE, CENTER, 2, 2)]"
        "\<lparr>id_session = ''0'', name = ''Training Session'',
          steps = [\<lparr>position = CENTER, targetMakes = None, targetAttempts = Some 1\<rparr>],
          currentStepIndex = 1,
          shots = [\<lparr>id_shot = ''1'', result = MAKE, position_shot = LEFT, timestamp = 1\<rparr>,
                   \<lparr>id_shot = ''2'', result = MAKE, position_shot = CENTER, timestamp = 2\<rparr>],
          isActive = False, completed = True\<rparr>"]
  by (simp add: handleShotRecorded_def updateSession_def Let_def reached_def startDrill_def
        toString_nat_digits)

section \<open>The terminal transition\<close>

lemma trace_nonempty: "sessionTrace prev es \<noteq> []"
  by (cases es) auto

lemma trace_hd: "hd (sessionTrace prev es) = prev"
  by (cases es) auto

text \<open>Once the flag is up it stays up, so the rest of the run has no rising edge.\<close>

lemma trace_completed_flat:
  "completedOf prev \<Longrightarrow> risingEdges (map completedOf (sessionTrace prev es)) = 0"
proof (induction es arbitrary: prev)
  case Nil
  then show ?case by simp
next
  case (Cons e es)
  obtain c res pos n1 n2 where e: "e = (c, res, pos, n1, n2)" by (cases e) auto
  show ?case
  proof (cases "handleShotRecorded c prev res pos n1 n2")
    case (Inl x)
    with e show ?thesis by simp
  next
    case (Inr prev')
    from handle_completedOf[OF Inr Cons.prems] have c': "completedOf prev'" .
    from Cons.IH[OF c'] have z: "risingEdges (map completedOf (sessionTrace prev' es)) = 0" .
    obtain t ts where t: "sessionTrace prev' es = t # ts"
      using trace_nonempty by (cases "sessionTrace prev' es") auto
    with e Inr z Cons.prems show ?thesis by simp
  qed
qed

lemma trace_edges: "risingEdges (map completedOf (sessionTrace prev es)) \<le> 1"
proof (induction es arbitrary: prev)
  case Nil
  then show ?case by simp
next
  case (Cons e es)
  obtain c res pos n1 n2 where e: "e = (c, res, pos, n1, n2)" by (cases e) auto
  show ?case
  proof (cases "handleShotRecorded c prev res pos n1 n2")
    case (Inl x)
    with e show ?thesis by simp
  next
    case (Inr prev')
    obtain t ts where t: "sessionTrace prev' es = t # ts"
      using trace_nonempty by (cases "sessionTrace prev' es") auto
    have ht: "t = prev'" using trace_hd[of prev' es] t by simp
    show ?thesis
    proof (cases "completedOf prev'")
      case True
      from trace_completed_flat[OF True, of es] e Inr t show ?thesis by simp
    next
      case False
      with Cons.IH[of prev'] e Inr t ht show ?thesis by simp
    qed
  qed
qed

text \<open>The call on which \<open>completed\<close> becomes true is the one that completes the last step.\<close>

lemma handle_terminal:
  assumes "handleShotRecorded session (Some u) res pos now1 now2 = Inr (Some u')"
    and "\<not> completed u" and "completed u'"
  shows "passesGuard session \<and> steps u' = steps u \<and>
         shots u' = shots u @ [\<lparr>id_shot = toString_nat now1, result = res,
                                  position_shot = pos, timestamp = now2\<rparr>] \<and>
         currentStepIndex u + 1 = length (steps u) \<and>
         currentStepIndex u' = length (steps u') \<and> \<not> isActive u' \<and>
         pos = position (steps u ! currentStepIndex u) \<and>
         (reached (targetAttempts (steps u ! currentStepIndex u)) (attemptsAt pos (shots u')) \<or>
          reached (targetMakes (steps u ! currentStepIndex u)) (makesAt pos (shots u')))"
  using assms(1)
proof (cases rule: handle_cases)
  case 1
  with assms(2,3) show ?thesis by simp
next
  case (2 s')
  from 2(1) have eq: "s' = u'" by simp
  note t = updateSession_terminal[OF 2(3)[unfolded eq] assms(2,3), unfolded Shot.select_convs]
  from t 2(2) show ?thesis by blast
qed

lemma handle_last_step:
  assumes "passesGuard session" and "currentStepIndex v + 1 = length (steps v)"
    and "pos = position (steps v ! currentStepIndex v)"
    and "reached (targetAttempts (steps v ! currentStepIndex v))
           (attemptsAt pos (shots v @ [\<lparr>id_shot = toString_nat now1, result = res,
                                          position_shot = pos, timestamp = now2\<rparr>])) \<or>
         reached (targetMakes (steps v ! currentStepIndex v))
           (makesAt pos (shots v @ [\<lparr>id_shot = toString_nat now1, result = res,
                                       position_shot = pos, timestamp = now2\<rparr>]))"
  shows "handleShotRecorded session (Some v) res pos now1 now2 =
           Inr (Some (v\<lparr>shots := shots v @ [\<lparr>id_shot = toString_nat now1, result = res,
                                                position_shot = pos, timestamp = now2\<rparr>],
                         currentStepIndex := length (steps v),
                         isActive := False, completed := True\<rparr>))"
  using updateSession_last_step[of v "\<lparr>id_shot = toString_nat now1, result = res,
          position_shot = pos, timestamp = now2\<rparr>"] assms
  by (simp add: handle_passed)

text \<open>
  C6. Along any run, \<open>completed\<close> goes from false to true at most once; a call, and
  a run of calls, on a completed session leaves it completed. The call on which
  \<open>completed\<close> becomes true is the one that completes the last step: it passed the
  guard, the steps are unchanged and the shot is appended, the step before the call was
  the last one, the shot is at its zone and one of the two threshold tests holds on the
  log with that shot; it sets \<open>currentStepIndex\<close> to \<open>steps.length\<close> and
  \<open>isActive\<close> to false. And every call that passes the guard and completes the last
  step in that way is that transition.
\<close>

theorem completed_at_most_once:
  "risingEdges (map completedOf (sessionTrace prev es)) \<le> 1 \<and>
   (completed s \<and> handleShotRecorded session (Some s) res pos now1 now2 = Inr (Some s') \<longrightarrow>
      completed s') \<and>
   (completed t \<and> applyShots (Some t) ts = Inr (Some t') \<longrightarrow> completed t') \<and>
   (\<not> completed u \<and> handleShotRecorded sessionU (Some u) resU posU nowU1 nowU2 = Inr (Some u') \<and>
      completed u' \<longrightarrow>
      passesGuard sessionU \<and> steps u' = steps u \<and>
      shots u' = shots u @ [\<lparr>id_shot = toString_nat nowU1, result = resU,
                               position_shot = posU, timestamp = nowU2\<rparr>] \<and>
      currentStepIndex u + 1 = length (steps u) \<and>
      currentStepIndex u' = length (steps u') \<and> \<not> isActive u' \<and>
      posU = position (steps u ! currentStepIndex u) \<and>
      (reached (targetAttempts (steps u ! currentStepIndex u)) (attemptsAt posU (shots u')) \<or>
       reached (targetMakes (steps u ! currentStepIndex u)) (makesAt posU (shots u')))) \<and>
   (passesGuard sessionV \<and> currentStepIndex v + 1 = length (steps v) \<and>
      posV = position (steps v ! currentStepIndex v) \<and>
      (reached (targetAttempts (steps v ! currentStepIndex v))
         (attemptsAt posV (shots v @ [\<lparr>id_shot = toString_nat m1, result = resV,
                                          position_shot = posV, timestamp = m2\<rparr>])) \<or>
       reached (targetMakes (steps v ! currentStepIndex v))
         (makesAt posV (shots v @ [\<lparr>id_shot = toString_nat m1, result = resV,
                                       position_shot = posV, timestamp = m2\<rparr>]))) \<longrightarrow>
      handleShotRecorded sessionV (Some v) resV posV m1 m2 =
        Inr (Some (v\<lparr>shots := shots v @ [\<lparr>id_shot = toString_nat m1, result = resV,
                                             position_shot = posV, timestamp = m2\<rparr>],
                      currentStepIndex := length (steps v),
                      isActive := False, completed := True\<rparr>)))"
proof (intro conjI impI)
  show "risingEdges (map completedOf (sessionTrace prev es)) \<le> 1"
    by (rule trace_edges)
next
  assume "completed s \<and> handleShotRecorded session (Some s) res pos now1 now2 = Inr (Some s')"
  then show "completed s'" using handle_completed by blast
next
  assume "completed t \<and> applyShots (Some t) ts = Inr (Some t')"
  then show "completed t'" using applyShots_completed by blast
next
  assume h: "\<not> completed u \<and>
    handleShotRecorded sessionU (Some u) resU posU nowU1 nowU2 = Inr (Some u') \<and> completed u'"
  then have c: "handleShotRecorded sessionU (Some u) resU posU nowU1 nowU2 = Inr (Some u')"
    "\<not> completed u" "completed u'" by simp_all
  note t = handle_terminal[OF c]
  from t show "passesGuard sessionU" by blast
  from t show "steps u' = steps u" by blast
  from t show "shots u' = shots u @ [\<lparr>id_shot = toString_nat nowU1, result = resU,
                               position_shot = posU, timestamp = nowU2\<rparr>]" by blast
  from t show "currentStepIndex u + 1 = length (steps u)" by blast
  from t show "currentStepIndex u' = length (steps u')" by blast
  from t show "\<not> isActive u'" by blast
  from t show "posU = position (steps u ! currentStepIndex u)" by blast
  from t show "reached (targetAttempts (steps u ! currentStepIndex u)) (attemptsAt posU (shots u')) \<or>
       reached (targetMakes (steps u ! currentStepIndex u)) (makesAt posU (shots u'))" by blast
next
  assume h: "passesGuard sessionV \<and> currentStepIndex v + 1 = length (steps v) \<and>
      posV = position (steps v ! currentStepIndex v) \<and>
      (reached (targetAttempts (steps v ! currentStepIndex v))
         (attemptsAt posV (shots v @ [\<lparr>id_shot = toString_nat m1, result = resV,
                                          position_shot = posV, timestamp = m2\<rparr>])) \<or>
       reached (targetMakes (steps v ! currentStepIndex v))
         (makesAt posV (shots v @ [\<lparr>id_shot = toString_nat m1, result = resV,
                                       position_shot = posV, timestamp = m2\<rparr>])))"
  then show "handleShotRecorded sessionV (Some v) resV posV m1 m2 =
        Inr (Some (v\<lparr>shots := shots v @ [\<lparr>id_shot = toString_nat m1, result = resV,
                                             position_shot = posV, timestamp = m2\<rparr>],
                      currentStepIndex := length (steps v),
                      isActive := False, completed := True\<rparr>))"
    using handle_last_step[of sessionV v posV m1 resV m2] by blast
qed

theorem completed_at_most_once_witness:
  "risingEdges (map completedOf (sessionTrace
     (Some (startDrill
             [\<lparr>position = LEFT, targetMakes = None, targetAttempts = Some 1\<rparr>,
               \<lparr>position = CENTER, targetMakes = None, targetAttempts = Some 1\<rparr>] 0))
     [(Some (startDrill
               [\<lparr>position = LEFT, targetMakes = None, targetAttempts = Some 1\<rparr>,
                 \<lparr>position = CENTER, targetMakes = None, targetAttempts = Some 1\<rparr>] 0),
         MAKE, CENTER, 1, 1),
      (Some (startDrill
               [\<lparr>position = LEFT, targetMakes = None, targetAttempts = Some 1\<rparr>,
                 \<lparr>position = CENTER, targetMakes = None, targetAttempts = Some 1\<rparr>] 0),
         MAKE, LEFT, 2, 2),
      (Some (startDrill
               [\<lparr>position = LEFT, targetMakes = None, targetAttempts = Some 1\<rparr>,
                 \<lparr>position = CENTER, targetMakes = None, targetAttempts = Some 1\<rparr>] 0),
         MISS, CENTER, 3, 3)])) = 1 \<and>
   completed ((startDrill [] 0)\<lparr>isActive := False, completed := True\<rparr>) \<and>
   handleShotRecorded (Some ((startDrill [] 0)\<lparr>isActive := False, completed := True\<rparr>)) (Some ((startDrill [] 0)\<lparr>isActive := False, completed := True\<rparr>)) MISS CENTER 2 2 = Inr (Some ((startDrill [] 0)\<lparr>isActive := False, completed := True\<rparr>)) \<and>
   applyShots (Some ((startDrill [] 0)\<lparr>isActive := False, completed := True\<rparr>)) [(Some ((startDrill [] 0)\<lparr>isActive := False, completed := True\<rparr>), MISS, CENTER, 2, 2), (None, MAKE, LEFT, 3, 3)] =
     Inr (Some ((startDrill [] 0)\<lparr>isActive := False, completed := True\<rparr>)) \<and>
   \<not> completed
      \<lparr>id_session = ''0'', name = ''Training Session'',
        steps = [\<lparr>position = LEFT, targetMakes = None, targetAttempts = Some 1\<rparr>,
                  \<lparr>position = CENTER, targetMakes = None, targetAttempts = Some 1\<rparr>],
        currentStepIndex = 1,
        shots = [\<lparr>id_shot = ''1'', result = MAKE, position_shot = CENTER, timestamp = 1\<rparr>,
               \<lparr>id_shot = ''2'', result = MAKE, position_shot = LEFT, timestamp = 2\<rparr>],
        isActive = True, completed = False\<rparr> \<and>
   passesGuard
     (Some (startDrill
             [\<lparr>position = LEFT, targetMakes = None, targetAttempts = Some 1\<rparr>,
               \<lparr>position = CENTER, targetMakes = None, targetAttempts = Some 1\<rparr>] 0)) \<and>
   handleShotRecorded
     (Some (startDrill
             [\<lparr>position = LEFT, targetMakes = None, targetAttempts = Some 1\<rparr>,
               \<lparr>position = CENTER, targetMakes = None, targetAttempts = Some 1\<rparr>] 0))
     (Some \<lparr>id_session = ''0'', name = ''Training Session'',
             steps = [\<lparr>position = LEFT, targetMakes = None, targetAttempts = Some 1\<rparr>,
                       \<lparr>position = CENTER, targetMakes = None, targetAttempts = Some 1\<rparr>],
             currentStepIndex = 1,
             shots = [\<lparr>id_shot = ''1'', result = MAKE, position_shot = CENTER, timestamp = 1\<rparr>,
                    \<lparr>id_shot = ''2'', result = MAKE, position_shot = LEFT, timestamp = 2\<rparr>],
             isActive = True, completed = False\<rparr>)
     MISS CENTER 3 3 =
   Inr (Some \<lparr>id_session = ''0'', name = ''Training Session'',
               steps = [\<lparr>position = LEFT, targetMakes = None, targetAttempts = Some 1\<rparr>,
                         \<lparr>position = CENTER, targetMakes = None, targetAttempts = Some 1\<rparr>],
               currentStepIndex = 2,
               shots = [\<lparr>id_shot = ''1'', result = MAKE, position_shot = CENTER, timestamp = 1\<rparr>,
                      \<lparr>id_shot = ''2'', result = MAKE, position_shot = LEFT, timestamp = 2\<rparr>,
                      \<lparr>id_shot = ''3'', result = MISS, position_shot = CENTER, timestamp = 3\<rparr>],
               isActive = False, completed = True\<rparr>)"
  using completed_at_most_once
    [of "Some (startDrill
                 [\<lparr>position = LEFT, targetMakes = None, targetAttempts = Some 1\<rparr>,
                   \<lparr>position = CENTER, targetMakes = None, targetAttempts = Some 1\<rparr>] 0)"
        "[(Some (startDrill
                   [\<lparr>position = LEFT, targetMakes = None, targetAttempts = Some 1\<rparr>,
                     \<lparr>position = CENTER, targetMakes = None, targetAttempts = Some 1\<rparr>] 0),
             MAKE, CENTER, 1, 1),
          (Some (startDrill
                   [\<lparr>position = LEFT, targetMakes = None, targetAttempts = Some 1\<rparr>,
                     \<lparr>position = CENTER, targetMakes = None, targetAttempts = Some 1\<rparr>] 0),
             MAKE, LEFT, 2, 2),
          (Some (startDrill
                   [\<lparr>position = LEFT, targetMakes = None, targetAttempts = Some 1\<rparr>,
                     \<lparr>position = CENTER, targetMakes = None, targetAttempts = Some 1\<rparr>] 0),
             MISS, CENTER, 3, 3)]"
        "((startDrill [] 0)\<lparr>isActive := False, completed := True\<rparr>)" "Some ((startDrill [] 0)\<lparr>isActive := False, completed := True\<rparr>)" MISS CENTER 2 2 "((startDrill [] 0)\<lparr>isActive := False, completed := True\<rparr>)"
        "((startDrill [] 0)\<lparr>isActive := False, completed := True\<rparr>)" "[(Some ((startDrill [] 0)\<lparr>isActive := False, completed := True\<rparr>), MISS, CENTER, 2, 2), (None, MAKE, LEFT, 3, 3)]" "((startDrill [] 0)\<lparr>isActive := False, completed := True\<rparr>)"
        "\<lparr>id_session = ''0'', name = ''Training Session'',
           steps = [\<lparr>position = LEFT, targetMakes = None, targetAttempts = Some 1\<rparr>,
                     \<lparr>position = CENTER, targetMakes = None, targetAttempts = Some 1\<rparr>],
           currentStepIndex = 1,
           shots = [\<lparr>id_shot = ''1'', result = MAKE, position_shot = CENTER, timestamp = 1\<rparr>,
                  \<lparr>id_shot = ''2'', result = MAKE, position_shot = LEFT, timestamp = 2\<rparr>],
           isActive = True, completed = False\<rparr>"
        "Some (startDrill
                 [\<lparr>position = LEFT, targetMakes = None, targetAttempts = Some 1\<rparr>,
                   \<lparr>position = CENTER, targetMakes = None, targetAttempts = Some 1\<rparr>] 0)"
        MISS CENTER 3 3
        "\<lparr>id_session = ''0'', name = ''Training Session'',
           steps = [\<lparr>position = LEFT, targetMakes = None, targetAttempts = Some 1\<rparr>,
                     \<lparr>position = CENTER, targetMakes = None, targetAttempts = Some 1\<rparr>],
           currentStepIndex = 2,
           shots = [\<lparr>id_shot = ''1'', result = MAKE, position_shot = CENTER, timestamp = 1\<rparr>,
                  \<lparr>id_shot = ''2'', result = MAKE, position_shot = LEFT, timestamp = 2\<rparr>,
                  \<lparr>id_shot = ''3'', result = MISS, position_shot = CENTER, timestamp = 3\<rparr>],
           isActive = False, completed = True\<rparr>"
        "Some (startDrill
                 [\<lparr>position = LEFT, targetMakes = None, targetAttempts = Some 1\<rparr>,
                   \<lparr>position = CENTER, targetMakes = None, targetAttempts = Some 1\<rparr>] 0)"
        "\<lparr>id_session = ''0'', name = ''Training Session'',
           steps = [\<lparr>position = LEFT, targetMakes = None, targetAttempts = Some 1\<rparr>,
                     \<lparr>position = CENTER, targetMakes = None, targetAttempts = Some 1\<rparr>],
           currentStepIndex = 1,
           shots = [\<lparr>id_shot = ''1'', result = MAKE, position_shot = CENTER, timestamp = 1\<rparr>,
                  \<lparr>id_shot = ''2'', result = MAKE, position_shot = LEFT, timestamp = 2\<rparr>],
           isActive = True, completed = False\<rparr>"
        CENTER 3 MISS 3]
  by (simp add: handleShotRecorded_def updateSession_def Let_def reached_def startDrill_def
        toString_nat_digits completedOf_def passesGuard_def attemptsAt_def makesAt_def)

section \<open>The session invariant\<close>

lemma start_inv: "stps \<noteq> [] \<Longrightarrow> session_inv (startDrill stps now)"
  by (simp add: session_inv_def startDrill_def)

text \<open>On an active session that satisfies the invariant every call returns.\<close>

lemma handle_inv_returns:
  assumes "session_inv a" and "isActive a"
  shows "\<exists>a'. handleShotRecorded session (Some a) res pos now1 now2 = Inr (Some a') \<and>
              session_inv a'"
proof (cases "passesGuard session")
  case False
  from handle_blocked[OF False, of "Some a" res pos now1 now2] assms(1) show ?thesis by simp
next
  case True
  from updateSession_inv_returns[OF assms] obtain a' where
    "updateSession a \<lparr>id_shot = toString_nat now1, result = res,
                       position_shot = pos, timestamp = now2\<rparr> = Inr a'"
    "session_inv a'" by blast
  with handle_passed[OF True, of a res pos now1 now2] show ?thesis by simp
qed

text \<open>
  C7. The session that \<open>startDrill\<close> creates from a non-empty program satisfies the
  invariant (index within \<open>0..steps.length\<close>, equal to \<open>steps.length\<close> exactly when
  completed, \<open>isActive\<close> the negation of \<open>completed\<close>). Every call, through any
  handler, and every run of calls, takes a session that satisfies it to one that
  satisfies it. On an active session that satisfies it every call returns such a
  session, without an exception.
\<close>

theorem session_invariant:
  "(stps \<noteq> [] \<longrightarrow> session_inv (startDrill stps now)) \<and>
   (session_inv s \<and> handleShotRecorded session (Some s) res pos now1 now2 = Inr (Some s') \<longrightarrow>
      session_inv s') \<and>
   (session_inv t \<and> applyShots (Some t) es = Inr (Some t') \<longrightarrow> session_inv t') \<and>
   (session_inv a \<and> isActive a \<longrightarrow>
      (\<exists>a'. handleShotRecorded sessionA (Some a) resA posA nowA1 nowA2 = Inr (Some a') \<and>
         session_inv a'))"
proof (intro conjI impI)
  assume "stps \<noteq> []"
  then show "session_inv (startDrill stps now)" by (rule start_inv)
next
  assume "session_inv s \<and>
    handleShotRecorded session (Some s) res pos now1 now2 = Inr (Some s')"
  then show "session_inv s'" using handle_inv_kept by blast
next
  assume "session_inv t \<and> applyShots (Some t) es = Inr (Some t')"
  then show "session_inv t'" using applyShots_inv_kept by blast
next
  assume "session_inv a \<and> isActive a"
  then show "\<exists>a'. handleShotRecorded sessionA (Some a) resA posA nowA1 nowA2 = Inr (Some a') \<and>
         session_inv a'"
    using handle_inv_returns by blast
qed

theorem session_invariant_witness:
  "[\<lparr>position = CENTER, targetMakes = None, targetAttempts = Some 1\<rparr>] \<noteq> [] \<and>
   session_inv
     (startDrill [\<lparr>position = CENTER, targetMakes = None, targetAttempts = Some 1\<rparr>] 0) \<and>
   isActive
     (startDrill [\<lparr>position = CENTER, targetMakes = None, targetAttempts = Some 1\<rparr>] 0) \<and>
   handleShotRecorded
     (Some (startDrill [\<lparr>position = CENTER, targetMakes = None, targetAttempts = Some 1\<rparr>] 0))
     (Some (startDrill [\<lparr>position = CENTER, targetMakes = None, targetAttempts = Some 1\<rparr>] 0))
     MAKE CENTER 1 1 =
   Inr (Some \<lparr>id_session = ''0'', name = ''Training Session'',
          steps = [\<lparr>position = CENTER, targetMakes = None, targetAttempts = Some 1\<rparr>],
          currentStepIndex = 1,
          shots = [\<lparr>id_shot = ''1'', result = MAKE, position_shot = CENTER, timestamp = 1\<rparr>],
          isActive = False, completed = True\<rparr>) \<and>
   session_inv
     \<lparr>id_session = ''0'', name = ''Training Session'',
       steps = [\<lparr>position = CENTER, targetMakes = None, targetAttempts = Some 1\<rparr>],
       currentStepIndex = 1,
       shots = [\<lparr>id_shot = ''1'', result = MAKE, position_shot = CENTER, timestamp = 1\<rparr>],
       isActive = False, completed = True\<rparr> \<and>
   applyShots
     (Some (startDrill [\<lparr>position = CENTER, targetMakes = None, targetAttempts = Some 1\<rparr>] 0))
     [(Some (startDrill [\<lparr>position = CENTER, targetMakes = None, targetAttempts = Some 1\<rparr>] 0),
         MAKE, LEFT, 1, 1),
      (Some (startDrill [\<lparr>position = CENTER, targetMakes = None, targetAttempts = Some 1\<rparr>] 0),
         MAKE, CENTER, 2, 2)] =
   Inr (Some \<lparr>id_session = ''0'', name = ''Training Session'',
          steps = [\<lparr>position = CENTER, targetMakes = None, targetAttempts = Some 1\<rparr>],
          currentStepIndex = 1,
          shots = [\<lparr>id_shot = ''1'', result = MAKE, position_shot = LEFT, timestamp = 1\<rparr>,
                   \<lparr>id_shot = ''2'', result = MAKE, position_shot = CENTER, timestamp = 2\<rparr>],
          isActive = False, completed = True\<rparr>) \<and>
   session_inv
     \<lparr>id_session = ''0'', name = ''Training Session'',
       steps = [\<lparr>position = CENTER, targetMakes = None, targetAttempts = Some 1\<rparr>],
       currentStepIndex = 1,
       shots = [\<lparr>id_shot = ''1'', result = MAKE, position_shot = LEFT, timestamp = 1\<rparr>,
                \<lparr>id_shot = ''2'', result = MAKE, position_shot = CENTER, timestamp = 2\<rparr>],
       isActive = False, completed = True\<rparr>"
proof -
  let ?S0 = "startDrill [\<lparr>position = CENTER, targetMakes = None, targetAttempts = Some 1\<rparr>] 0"
  let ?R1 = "\<lparr>id_session = ''0'', name = ''Training Session'',
          steps = [\<lparr>position = CENTER, targetMakes = None, targetAttempts = Some 1\<rparr>],
          currentStepIndex = 1,
          shots = [\<lparr>id_shot = ''1'', result = MAKE, position_shot = CENTER, timestamp = 1\<rparr>],
          isActive = False, completed = True\<rparr>"
  let ?R2 = "\<lparr>id_session = ''0'', name = ''Training Session'',
          steps = [\<lparr>position = CENTER, targetMakes = None, targetAttempts = Some 1\<rparr>],
          currentStepIndex = 1,
          shots = [\<lparr>id_shot = ''1'', result = MAKE, position_shot = LEFT, timestamp = 1\<rparr>,
                   \<lparr>id_shot = ''2'', result = MAKE, position_shot = CENTER, timestamp = 2\<rparr>],
          isActive = False, completed = True\<rparr>"
  have e1: "handleShotRecorded (Some ?S0) (Some ?S0) MAKE CENTER 1 1 = Inr (Some ?R1)"
    by (simp add: handleShotRecorded_def updateSession_def Let_def reached_def startDrill_def
          toString_nat_digits)
  have e2: "applyShots (Some ?S0) [(Some ?S0, MAKE, LEFT, 1, 1), (Some ?S0, MAKE, CENTER, 2, 2)] =
              Inr (Some ?R2)"
    by (simp add: handleShotRecorded_def updateSession_def Let_def reached_def startDrill_def
          toString_nat_digits)
  have i0: "session_inv ?S0"
    by (rule session_invariant[THEN conjunct1, rule_format]) simp
  have i1: "session_inv ?R1"
    by (rule session_invariant[THEN conjunct2, THEN conjunct1, rule_format, OF conjI,
          OF i0 e1])
  have i2: "session_inv ?R2"
    by (rule session_invariant[THEN conjunct2, THEN conjunct2, THEN conjunct1, rule_format,
          OF conjI, OF i0 e2])
  have a0: "isActive ?S0" by (simp add: startDrill_def)
  from i0 i1 i2 e1 e2 a0 show ?thesis by simp
qed

section \<open>The attempt-based policy\<close>







section \<open>The make-based policy\<close>

text \<open>
  C4, for a step that starts below its threshold. Let the handler's session be active
  (for the applyShot of an active session it is the state itself), and let the current
  step of the state have the make threshold \<open>T \<ge> 1\<close> and no attempt threshold, at zone \<open>z\<close>, and
  let the log hold fewer than \<open>T\<close> makes at \<open>z\<close>. Every call appends its shot to the
  log. The call completes the step (the index goes up by one) exactly when the shot is a
  make at \<open>z\<close> and the log, with that shot, holds \<open>T\<close> makes at \<open>z\<close>; otherwise the
  index stays. A miss leaves the count of makes at \<open>z\<close> and the index as they were.
\<close>

theorem make_step_completion:
  assumes "isActive c" and "currentStepIndex s < length (steps s)"
    and "position (steps s ! currentStepIndex s) = z"
    and "targetMakes (steps s ! currentStepIndex s) = Some (int T)"
    and "targetAttempts (steps s ! currentStepIndex s) = None"
    and "1 \<le> T" and "makesAt z (shots s) < T"
  shows "\<exists>s'. handleShotRecorded (Some c) (Some s) res pos now1 now2 = Inr (Some s') \<and>
     shots s' = shots s @ [\<lparr>id_shot = toString_nat now1, result = res,
                             position_shot = pos, timestamp = now2\<rparr>] \<and>
     (currentStepIndex s' = currentStepIndex s + 1) =
       (res = MAKE \<and> pos = z \<and> makesAt z (shots s') = T) \<and>
     (currentStepIndex s' = currentStepIndex s) =
       (\<not> (res = MAKE \<and> pos = z \<and> makesAt z (shots s') = T)) \<and>
     (res = MISS \<longrightarrow>
        makesAt z (shots s') = makesAt z (shots s) \<and>
        currentStepIndex s' = currentStepIndex s)"
  using assms
  by (auto simp: handleShotRecorded_def updateSession_def Let_def reached_def makesAt_def)

theorem make_step_completion_witness:
  "isActive
     (startDrill [\<lparr>position = LEFT, targetMakes = Some (int 2), targetAttempts = None\<rparr>] 0) \<and>
   (1::nat) \<le> 2 \<and>
   makesAt LEFT (shots
     (startDrill [\<lparr>position = LEFT, targetMakes = Some (int 2), targetAttempts = None\<rparr>] 0))
     < 2 \<and>
   (\<exists>s'. handleShotRecorded
       (Some (startDrill [\<lparr>position = LEFT, targetMakes = Some (int 2), targetAttempts = None\<rparr>] 0))
       (Some (startDrill [\<lparr>position = LEFT, targetMakes = Some (int 2), targetAttempts = None\<rparr>] 0))
       MISS LEFT 1 1 = Inr (Some s') \<and>
      shots s' = [\<lparr>id_shot = ''1'', result = MISS, position_shot = LEFT, timestamp = 1\<rparr>] \<and>
      currentStepIndex s' = 0 \<and> makesAt LEFT (shots s') = 0)"
  using make_step_completion
    [of "startDrill [\<lparr>position = LEFT, targetMakes = Some (int 2), targetAttempts = None\<rparr>] 0"
        "startDrill [\<lparr>position = LEFT, targetMakes = Some (int 2), targetAttempts = None\<rparr>] 0"
        LEFT 2 MISS LEFT 1 1]
  by (auto simp: startDrill_def toString_nat_digits makesAt_def)

text \<open>
  Without that condition the property fails, on a program of two make-based steps with
  threshold 1, LEFT then CENTER, every shot coming through the handler of the first
  render. A make at CENTER during the first step brings the count
  of makes at CENTER to the threshold, and the CENTER step is not the current one. After
  the make at LEFT that completes the first step, a miss at CENTER completes the CENTER
  step and the drill, the count of makes at CENTER unchanged.
\<close>

theorem make_step_completes_on_miss:
  "makesAt CENTER
     [\<lparr>id_shot = ''1'', result = MAKE, position_shot = CENTER, timestamp = 1\<rparr>] = 1 \<and>
   applyShots
     (Some (startDrill [\<lparr>position = LEFT, targetMakes = Some 1, targetAttempts = None\<rparr>,
                        \<lparr>position = CENTER, targetMakes = Some 1, targetAttempts = None\<rparr>] 0))
     [(Some (startDrill [\<lparr>position = LEFT, targetMakes = Some 1, targetAttempts = None\<rparr>,
                          \<lparr>position = CENTER, targetMakes = Some 1, targetAttempts = None\<rparr>] 0),
        MAKE, CENTER, 1, 1),
      (Some (startDrill [\<lparr>position = LEFT, targetMakes = Some 1, targetAttempts = None\<rparr>,
                          \<lparr>position = CENTER, targetMakes = Some 1, targetAttempts = None\<rparr>] 0),
        MAKE, LEFT, 2, 2)] =
   Inr (Some \<lparr>id_session = ''0'', name = ''Training Session'',
          steps = [\<lparr>position = LEFT, targetMakes = Some 1, targetAttempts = None\<rparr>,
                   \<lparr>position = CENTER, targetMakes = Some 1, targetAttempts = None\<rparr>],
          currentStepIndex = 1,
          shots = [\<lparr>id_shot = ''1'', result = MAKE, position_shot = CENTER, timestamp = 1\<rparr>,
                   \<lparr>id_shot = ''2'', result = MAKE, position_shot = LEFT, timestamp = 2\<rparr>],
          isActive = True, completed = False\<rparr>) \<and>
   applyShots
     (Some (startDrill [\<lparr>position = LEFT, targetMakes = Some 1, targetAttempts = None\<rparr>,
                        \<lparr>position = CENTER, targetMakes = Some 1, targetAttempts = None\<rparr>] 0))
     [(Some (startDrill [\<lparr>position = LEFT, targetMakes = Some 1, targetAttempts = None\<rparr>,
                          \<lparr>position = CENTER, targetMakes = Some 1, targetAttempts = None\<rparr>] 0),
        MAKE, CENTER, 1, 1),
      (Some (startDrill [\<lparr>position = LEFT, targetMakes = Some 1, targetAttempts = None\<rparr>,
                          \<lparr>position = CENTER, targetMakes = Some 1, targetAttempts = None\<rparr>] 0),
        MAKE, LEFT, 2, 2),
      (Some (startDrill [\<lparr>position = LEFT, targetMakes = Some 1, targetAttempts = None\<rparr>,
                          \<lparr>position = CENTER, targetMakes = Some 1, targetAttempts = None\<rparr>] 0),
        MISS, CENTER, 3, 3)] =
   Inr (Some \<lparr>id_session = ''0'', name = ''Training Session'',
          steps = [\<lparr>position = LEFT, targetMakes = Some 1, targetAttempts = None\<rparr>,
                   \<lparr>position = CENTER, targetMakes = Some 1, targetAttempts = None\<rparr>],
          currentStepIndex = 2,
          shots = [\<lparr>id_shot = ''1'', result = MAKE, position_shot = CENTER, timestamp = 1\<rparr>,
                   \<lparr>id_shot = ''2'', result = MAKE, position_shot = LEFT, timestamp = 2\<rparr>,
                   \<lparr>id_shot = ''3'', result = MISS, position_shot = CENTER, timestamp = 3\<rparr>],
          isActive = False, completed = True\<rparr>)"
  by (simp add: handleShotRecorded_def updateSession_def Let_def reached_def startDrill_def
        toString_nat_digits makesAt_def)

section \<open>The instruction text\<close>

lemma toString_int_small:
  "toString_int big 2 = ''2''" "toString_int big 3 = ''3''"
  by (simp_all add: toString_int_def toString_nat_digits)

lemma instruction_none: "getInstruction big None = ''Select a drill''"
  by (simp add: getInstruction_def)

lemma instruction_completed:
  "completed c \<Longrightarrow> getInstruction big (Some c) = ''Drill Complete!''"
  by (simp add: getInstruction_def)

lemma instruction_makes:
  "\<not> completed m \<Longrightarrow> currentStepIndex m < length (steps m) \<Longrightarrow>
    targetMakes (steps m ! currentStepIndex m) = Some M \<Longrightarrow> M \<noteq> 0 \<Longrightarrow>
      getInstruction big (Some m) =
        ''Move to '' @ toString_pos (position (steps m ! currentStepIndex m)) @ '': '' @
        toString_nat (makesAt (position (steps m ! currentStepIndex m)) (shots m)) @
        '' / '' @ toString_int big M"
  by (simp add: getInstruction_def Let_def truthy_def toString_opt_def makesAt_def)

lemma instruction_attempts:
  "\<not> completed a \<Longrightarrow> currentStepIndex a < length (steps a) \<Longrightarrow>
    targetMakes (steps a ! currentStepIndex a) = None \<Longrightarrow>
    targetAttempts (steps a ! currentStepIndex a) = Some A \<Longrightarrow>
      getInstruction big (Some a) =
        ''Move to '' @ toString_pos (position (steps a ! currentStepIndex a)) @ '': '' @
        toString_nat (attemptsAt (position (steps a ! currentStepIndex a)) (shots a)) @
        '' / '' @ toString_int big A"
  by (simp add: getInstruction_def Let_def truthy_def toString_opt_def attemptsAt_def)

lemma instruction_scenario:
  assumes "isActive c1" and "isActive c2"
  shows "\<exists>e. applyShots
      (Some (startDrill [\<lparr>position = LEFT, targetMakes = Some 2, targetAttempts = None\<rparr>,
                         \<lparr>position = RIGHT, targetMakes = Some 2, targetAttempts = None\<rparr>] now))
      [(Some c1, MAKE, LEFT, a1, b1), (Some c2, MISS, LEFT, a2, b2)] = Inr (Some e) \<and>
      currentStepIndex e = 0 \<and> getInstruction big (Some e) = ''Move to LEFT: 1 / 2''"
  using assms
  by (simp add: getInstruction_def Let_def truthy_def toString_opt_def
       handleShotRecorded_def updateSession_def reached_def startDrill_def
       toString_int_small toString_nat_digits)

text \<open>
  C8. \<open>getInstruction\<close> is a function of the session alone (and of the runtime's
  rendering of numbers). With no session it returns the prompt to select a drill,
  \<open>Select a drill\<close>; for a completed session the completion message
  \<open>Drill Complete!\<close>; otherwise, the current step being there, it returns
  \<open>Move to Z: current / target\<close>, where \<open>Z\<close> is the zone of the step; for a step that
  defines a make threshold \<open>current\<close> is the count of makes at \<open>Z\<close> in the log and
  \<open>target\<close> that threshold; for a step that defines an attempt threshold and no make
  threshold \<open>current\<close> is the count of shots at \<open>Z\<close> and \<open>target\<close> that threshold.
  For the program LEFT with 2 makes, RIGHT with 2 makes, after a make and a miss at LEFT,
  each through a handler whose session is active, the session is at step 0 and the text
  is \<open>Move to LEFT: 1 / 2\<close>.
\<close>

theorem instruction_text:
  "getInstruction big None = ''Select a drill'' \<and>
   (completed c \<longrightarrow> getInstruction big (Some c) = ''Drill Complete!'') \<and>
   (\<not> completed m \<and> currentStepIndex m < length (steps m) \<and>
    targetMakes (steps m ! currentStepIndex m) = Some M \<and> M \<noteq> 0 \<longrightarrow>
      getInstruction big (Some m) =
        ''Move to '' @ toString_pos (position (steps m ! currentStepIndex m)) @ '': '' @
        toString_nat (makesAt (position (steps m ! currentStepIndex m)) (shots m)) @
        '' / '' @ toString_int big M) \<and>
   (\<not> completed a \<and> currentStepIndex a < length (steps a) \<and>
    targetMakes (steps a ! currentStepIndex a) = None \<and>
    targetAttempts (steps a ! currentStepIndex a) = Some A \<longrightarrow>
      getInstruction big (Some a) =
        ''Move to '' @ toString_pos (position (steps a ! currentStepIndex a)) @ '': '' @
        toString_nat (attemptsAt (position (steps a ! currentStepIndex a)) (shots a)) @
        '' / '' @ toString_int big A) \<and>
   (isActive c1 \<and> isActive c2 \<longrightarrow>
     (\<exists>e. applyShots
        (Some (startDrill [\<lparr>position = LEFT, targetMakes = Some 2, targetAttempts = None\<rparr>,
                           \<lparr>position = RIGHT, targetMakes = Some 2, targetAttempts = None\<rparr>] now))
        [(Some c1, MAKE, LEFT, a1, b1), (Some c2, MISS, LEFT, a2, b2)] = Inr (Some e) \<and>
        currentStepIndex e = 0 \<and> getInstruction big (Some e) = ''Move to LEFT: 1 / 2''))"
proof (intro conjI impI)
  show "getInstruction big None = ''Select a drill''" by (rule instruction_none)
next
  assume "completed c"
  then show "getInstruction big (Some c) = ''Drill Complete!''" by (rule instruction_completed)
next
  assume "\<not> completed m \<and> currentStepIndex m < length (steps m) \<and>
    targetMakes (steps m ! currentStepIndex m) = Some M \<and> M \<noteq> 0"
  then show "getInstruction big (Some m) =
        ''Move to '' @ toString_pos (position (steps m ! currentStepIndex m)) @ '': '' @
        toString_nat (makesAt (position (steps m ! currentStepIndex m)) (shots m)) @
        '' / '' @ toString_int big M"
    using instruction_makes[of m M big] by blast
next
  assume "\<not> completed a \<and> currentStepIndex a < length (steps a) \<and>
    targetMakes (steps a ! currentStepIndex a) = None \<and>
    targetAttempts (steps a ! currentStepIndex a) = Some A"
  then show "getInstruction big (Some a) =
        ''Move to '' @ toString_pos (position (steps a ! currentStepIndex a)) @ '': '' @
        toString_nat (attemptsAt (position (steps a ! currentStepIndex a)) (shots a)) @
        '' / '' @ toString_int big A"
    using instruction_attempts[of a A big] by blast
next
  assume "isActive c1 \<and> isActive c2"
  then show "\<exists>e. applyShots
        (Some (startDrill [\<lparr>position = LEFT, targetMakes = Some 2, targetAttempts = None\<rparr>,
                           \<lparr>position = RIGHT, targetMakes = Some 2, targetAttempts = None\<rparr>] now))
        [(Some c1, MAKE, LEFT, a1, b1), (Some c2, MISS, LEFT, a2, b2)] = Inr (Some e) \<and>
        currentStepIndex e = 0 \<and> getInstruction big (Some e) = ''Move to LEFT: 1 / 2''"
    using instruction_scenario[of c1 c2 now a1 b1 a2 b2 big] by blast
qed

theorem instruction_text_witness:
  "completed ((startDrill [] 0)\<lparr>isActive := False, completed := True\<rparr>) \<and>
   getInstruction (\<lambda>i. ''1e+21'')
     (Some ((startDrill [] 0)\<lparr>isActive := False, completed := True\<rparr>)) =
     ''Drill Complete!'' \<and>
   \<not> completed
       (startDrill [\<lparr>position = LEFT, targetMakes = Some 2, targetAttempts = None\<rparr>] 0) \<and>
   getInstruction (\<lambda>i. ''1e+21'')
     (Some (startDrill [\<lparr>position = LEFT, targetMakes = Some 2, targetAttempts = None\<rparr>] 0)) =
     ''Move to LEFT: 0 / 2'' \<and>
   \<not> completed
       (startDrill [\<lparr>position = CENTER, targetMakes = None, targetAttempts = Some 3\<rparr>] 0) \<and>
   getInstruction (\<lambda>i. ''1e+21'')
     (Some (startDrill [\<lparr>position = CENTER, targetMakes = None, targetAttempts = Some 3\<rparr>] 0)) =
     ''Move to CENTER: 0 / 3'' \<and>
   isActive
     (startDrill [\<lparr>position = LEFT, targetMakes = Some 2, targetAttempts = None\<rparr>,
                  \<lparr>position = RIGHT, targetMakes = Some 2, targetAttempts = None\<rparr>] 0) \<and>
   (\<exists>e. applyShots
      (Some (startDrill [\<lparr>position = LEFT, targetMakes = Some 2, targetAttempts = None\<rparr>,
                         \<lparr>position = RIGHT, targetMakes = Some 2, targetAttempts = None\<rparr>] 0))
      [(Some (startDrill [\<lparr>position = LEFT, targetMakes = Some 2, targetAttempts = None\<rparr>,
                          \<lparr>position = RIGHT, targetMakes = Some 2, targetAttempts = None\<rparr>] 0),
          MAKE, LEFT, 1, 1),
       (Some (startDrill [\<lparr>position = LEFT, targetMakes = Some 2, targetAttempts = None\<rparr>,
                          \<lparr>position = RIGHT, targetMakes = Some 2, targetAttempts = None\<rparr>] 0),
          MISS, LEFT, 2, 2)] = Inr (Some e) \<and>
      currentStepIndex e = 0 \<and>
      getInstruction (\<lambda>i. ''1e+21'') (Some e) = ''Move to LEFT: 1 / 2'')"
  using instruction_text
    [of "\<lambda>i. ''1e+21''"
        "(startDrill [] 0)\<lparr>isActive := False, completed := True\<rparr>"
        "startDrill [\<lparr>position = LEFT, targetMakes = Some 2, targetAttempts = None\<rparr>] 0" 2
        "startDrill [\<lparr>position = CENTER, targetMakes = None, targetAttempts = Some 3\<rparr>] 0" 3
        "startDrill [\<lparr>position = LEFT, targetMakes = Some 2, targetAttempts = None\<rparr>,
                     \<lparr>position = RIGHT, targetMakes = Some 2, targetAttempts = None\<rparr>] 0"
        "startDrill [\<lparr>position = LEFT, targetMakes = Some 2, targetAttempts = None\<rparr>,
                     \<lparr>position = RIGHT, targetMakes = Some 2, targetAttempts = None\<rparr>] 0"
        0 1 1 2 2]
  by (simp add: startDrill_def makesAt_def attemptsAt_def toString_int_small
        toString_nat_digits)

section \<open>Program construction\<close>

text \<open>What the two sources of programs guarantee.\<close>

lemma custom_empty: "handleCreateCustom [] mk spp tm = None"
  by (simp add: handleCreateCustom_def)

lemma custom_steps:
  assumes "sel \<noteq> []"
  shows "\<exists>stps. handleCreateCustom sel mk spp tm = Some stps \<and> stps \<noteq> [] \<and>
           map position stps = sel \<and>
           (\<forall>st\<in>set stps. (targetMakes st = None) \<noteq> (targetAttempts st = None)) \<and>
           (1 \<le> spp \<and> 1 \<le> tm \<longrightarrow> spec_valid_program stps)"
proof (cases mk)
  case True
  with assms show ?thesis
    by (auto simp: handleCreateCustom_def spec_valid_program_def spec_valid_step_def
          list_all_iff comp_def)
next
  case False
  with assms show ?thesis
    by (auto simp: handleCreateCustom_def spec_valid_program_def spec_valid_step_def
          list_all_iff comp_def)
qed

lemma predefined_valid: "\<forall>p\<in>set predefinedDrills. spec_valid_program p"
  by (simp add: predefinedDrills_def spec_valid_program_def spec_valid_step_def)

text \<open>
  C9. A program with a non-positive threshold is built and started. With \<open>-5\<close> typed
  into the number input, the input stores \<open>-5\<close>; with LEFT selected and the attempt
  policy, \<open>handleCreateCustom\<close> hands \<open>startDrill\<close> a program whose step has the
  threshold \<open>-5\<close>, which is not valid; the session starts, and the first shot at LEFT,
  a miss, completes the drill.
\<close>

theorem invalid_program_starts:
  "onChange_value (Some (- 5)) = - 5 \<and>
   handleCreateCustom [LEFT] False (onChange_value (Some (- 5))) 3 =
     Some [\<lparr>position = LEFT, targetMakes = None, targetAttempts = Some (- 5)\<rparr>] \<and>
   \<not> spec_valid_program [\<lparr>position = LEFT, targetMakes = None, targetAttempts = Some (- 5)\<rparr>] \<and>
   isActive
     (startDrill [\<lparr>position = LEFT, targetMakes = None, targetAttempts = Some (- 5)\<rparr>] 0) \<and>
   handleShotRecorded
     (Some (startDrill [\<lparr>position = LEFT, targetMakes = None, targetAttempts = Some (- 5)\<rparr>] 0))
     (Some (startDrill [\<lparr>position = LEFT, targetMakes = None, targetAttempts = Some (- 5)\<rparr>] 0))
     MISS LEFT 1 1 =
   Inr (Some \<lparr>id_session = ''0'', name = ''Training Session'',
          steps = [\<lparr>position = LEFT, targetMakes = None, targetAttempts = Some (- 5)\<rparr>],
          currentStepIndex = 1,
          shots = [\<lparr>id_shot = ''1'', result = MISS, position_shot = LEFT, timestamp = 1\<rparr>],
          isActive = False, completed = True\<rparr>)"
  by (simp add: onChange_value_def handleCreateCustom_def spec_valid_program_def
        spec_valid_step_def handleShotRecorded_def updateSession_def Let_def reached_def
        startDrill_def toString_nat_digits)

section \<open>The same zone in two steps\<close>

text \<open>One shot at the zone of an attempt-based step.\<close>

lemma attempt_step_shot:
  assumes "passesGuard session" and "currentStepIndex s < length (steps s)"
    and "position (steps s ! currentStepIndex s) = z"
    and "targetAttempts (steps s ! currentStepIndex s) = Some (int T)"
    and "targetMakes (steps s ! currentStepIndex s) = None"
    and "1 \<le> T"
  shows "handleShotRecorded session (Some s) res z now1 now2 =
     Inr (Some
       (let log = shots s @ [\<lparr>id_shot = toString_nat now1, result = res,
                               position_shot = z, timestamp = now2\<rparr>] in
        if attemptsAt z (shots s) + 1 < T then s\<lparr>shots := log\<rparr>
        else if length (steps s) \<le> currentStepIndex s + 1
        then s\<lparr>shots := log, currentStepIndex := currentStepIndex s + 1,
               isActive := False, completed := True\<rparr>
        else s\<lparr>shots := log, currentStepIndex := currentStepIndex s + 1\<rparr>))"
  using assms
  by (auto simp: handle_passed updateSession_def Let_def reached_def attemptsAt_def)

lemma attempt_step_below:
  assumes "currentStepIndex s < length (steps s)"
    and "position (steps s ! currentStepIndex s) = z"
    and "targetAttempts (steps s ! currentStepIndex s) = Some (int T)"
    and "targetMakes (steps s ! currentStepIndex s) = None"
    and "attemptsAt z (shots s) + length es < T"
    and "\<forall>e\<in>set es. passesGuard (fst e) \<and> fst (snd (snd e)) = z"
  shows "\<exists>s'. applyShots (Some s) es = Inr (Some s') \<and> steps s' = steps s \<and>
     currentStepIndex s' = currentStepIndex s \<and> isActive s' = isActive s \<and>
     completed s' = completed s \<and>
     attemptsAt z (shots s') = attemptsAt z (shots s) + length es"
  using assms
proof (induction es arbitrary: s)
  case Nil
  then show ?case by simp
next
  case (Cons e es)
  obtain c res n1 n2 where e: "e = (c, res, z, n1, n2)" and c: "passesGuard c"
    using Cons.prems(6) by (cases e) auto
  let ?m = "s\<lparr>shots := shots s @ [\<lparr>id_shot = toString_nat n1, result = res,
                               position_shot = z, timestamp = n2\<rparr>]\<rparr>"
  have T: "1 \<le> T" using Cons.prems(5) by simp
  have h: "handleShotRecorded c (Some s) res z n1 n2 = Inr (Some ?m)"
    using attempt_step_shot[OF c Cons.prems(1-4) T, of res n1 n2] Cons.prems(5)
    by (simp add: Let_def)
  have a: "attemptsAt z (shots ?m) = attemptsAt z (shots s) + 1"
    by (simp add: attemptsAt_def)
  have "\<exists>s'. applyShots (Some ?m) es = Inr (Some s') \<and> steps s' = steps ?m \<and>
     currentStepIndex s' = currentStepIndex ?m \<and> isActive s' = isActive ?m \<and>
     completed s' = completed ?m \<and>
     attemptsAt z (shots s') = attemptsAt z (shots ?m) + length es"
    apply (rule Cons.IH)
    using Cons.prems a by simp_all
  then show ?case using h e a by auto
qed

text \<open>
  C10. The counts are taken over the whole log. In the program of two steps at the same
  zone \<open>z\<close>, each with the attempt threshold \<open>T \<ge> 1\<close>, fed shots at \<open>z\<close>, each
  through a handler whose session is active (as the states before these calls are): after
  fewer than \<open>T\<close> shots the session is at step 0; after \<open>T\<close> shots it is at step 1,
  active, with \<open>T\<close> shots at \<open>z\<close> in the log; and the very next shot at \<open>z\<close>
  completes the second step and the drill, with \<open>T + 1\<close> shots at \<open>z\<close> in the log.
\<close>

theorem repeated_zone_counts_whole_log:
  assumes T: "1 \<le> T"
    and st: "st = \<lparr>position = z, targetMakes = None, targetAttempts = Some (int T)\<rparr>"
    and len: "length es = T"
    and zone: "\<forall>e\<in>set es. passesGuard (fst e) \<and> fst (snd (snd e)) = z"
    and guard: "passesGuard session"
  shows "(\<forall>k<T. \<exists>s. applyShots (Some (startDrill [st, st] now)) (take k es) = Inr (Some s) \<and>
            currentStepIndex s = 0) \<and>
         (\<exists>s1 s2. applyShots (Some (startDrill [st, st] now)) es = Inr (Some s1) \<and>
            currentStepIndex s1 = 1 \<and> isActive s1 \<and> \<not> completed s1 \<and>
            attemptsAt z (shots s1) = T \<and>
            handleShotRecorded session (Some s1) res z now1 now2 = Inr (Some s2) \<and>
            currentStepIndex s2 = 2 \<and> completed s2 \<and> \<not> isActive s2 \<and>
            attemptsAt z (shots s2) = T + 1)"
proof
  let ?s0 = "startDrill [st, st] now"
  have s0: "isActive ?s0" "currentStepIndex ?s0 < length (steps ?s0)"
    "position (steps ?s0 ! currentStepIndex ?s0) = z"
    "targetAttempts (steps ?s0 ! currentStepIndex ?s0) = Some (int T)"
    "targetMakes (steps ?s0 ! currentStepIndex ?s0) = None"
    "attemptsAt z (shots ?s0) = 0" "currentStepIndex ?s0 = 0" "steps ?s0 = [st, st]"
    "\<not> completed ?s0"
    by (simp_all add: startDrill_def st attemptsAt_def)
  show "\<forall>k<T. \<exists>s. applyShots (Some ?s0) (take k es) = Inr (Some s) \<and> currentStepIndex s = 0"
  proof (intro allI impI)
    fix k assume k: "k < T"
    have z': "\<forall>e\<in>set (take k es). passesGuard (fst e) \<and> fst (snd (snd e)) = z"
      using zone by (meson in_set_takeD)
    have "attemptsAt z (shots ?s0) + length (take k es) < T"
      using k len s0(6) by simp
    from attempt_step_below[OF s0(2-5) this z'] s0(7)
    show "\<exists>s. applyShots (Some ?s0) (take k es) = Inr (Some s) \<and> currentStepIndex s = 0"
      by auto
  qed
  have ne: "es \<noteq> []" using T len by auto
  obtain c0 r0 p0 a0 b0 where lst: "last es = (c0, r0, p0, a0, b0)" by (cases "last es") auto
  have "last es \<in> set es" using ne by simp
  with zone lst have p0: "p0 = z" and c0: "passesGuard c0" by fastforce+
  have split: "es = butlast es @ [(c0, r0, z, a0, b0)]"
    using ne lst p0 by (metis append_butlast_last_id)
  have zb: "\<forall>e\<in>set (butlast es). passesGuard (fst e) \<and> fst (snd (snd e)) = z"
    using zone by (meson in_set_butlastD)
  have "attemptsAt z (shots ?s0) + length (butlast es) < T"
    using T len s0(6) by simp
  from attempt_step_below[OF s0(2-5) this zb] obtain m where
    m: "applyShots (Some ?s0) (butlast es) = Inr (Some m)" "steps m = [st, st]"
       "currentStepIndex m = 0" "isActive m" "\<not> completed m"
       "attemptsAt z (shots m) = T - 1"
    using s0 len by auto
  have mstep: "currentStepIndex m < length (steps m)"
    "position (steps m ! currentStepIndex m) = z"
    "targetAttempts (steps m ! currentStepIndex m) = Some (int T)"
    "targetMakes (steps m ! currentStepIndex m) = None"
    using m st by simp_all
  let ?s1 = "m\<lparr>shots := shots m @ [\<lparr>id_shot = toString_nat a0, result = r0,
                  position_shot = z, timestamp = b0\<rparr>], currentStepIndex := 1\<rparr>"
  have h1: "handleShotRecorded c0 (Some m) r0 z a0 b0 = Inr (Some ?s1)"
    using attempt_step_shot[OF c0 mstep T, of r0 a0 b0] m T by (simp add: Let_def)
  have run1: "applyShots (Some ?s0) es = Inr (Some ?s1)"
    by (subst split) (simp add: applyShots_append m(1) h1)
  have a1: "attemptsAt z (shots ?s1) = T"
    using m(6) T by (simp add: attemptsAt_def)
  have s1step: "currentStepIndex ?s1 < length (steps ?s1)"
    "position (steps ?s1 ! currentStepIndex ?s1) = z"
    "targetAttempts (steps ?s1 ! currentStepIndex ?s1) = Some (int T)"
    "targetMakes (steps ?s1 ! currentStepIndex ?s1) = None"
    using m st by simp_all
  let ?s2 = "?s1\<lparr>shots := shots ?s1 @ [\<lparr>id_shot = toString_nat now1, result = res,
                  position_shot = z, timestamp = now2\<rparr>], currentStepIndex := 2,
                  isActive := False, completed := True\<rparr>"
  have h2: "handleShotRecorded session (Some ?s1) res z now1 now2 = Inr (Some ?s2)"
    using attempt_step_shot[OF guard s1step T, of res now1 now2] a1 m(2) by (simp add: Let_def)
  have a2: "attemptsAt z (shots ?s2) = T + 1"
    using a1 by (simp add: attemptsAt_def)
  show "\<exists>s1 s2. applyShots (Some ?s0) es = Inr (Some s1) \<and>
            currentStepIndex s1 = 1 \<and> isActive s1 \<and> \<not> completed s1 \<and>
            attemptsAt z (shots s1) = T \<and>
            handleShotRecorded session (Some s1) res z now1 now2 = Inr (Some s2) \<and>
            currentStepIndex s2 = 2 \<and> completed s2 \<and> \<not> isActive s2 \<and>
            attemptsAt z (shots s2) = T + 1"
    apply (rule exI[of _ ?s1], rule exI[of _ ?s2])
    using run1 h2 a1 a2 m(4,5) by simp
qed

theorem repeated_zone_counts_whole_log_witness:
  "(1::nat) \<le> 2 \<and>
   passesGuard
     (Some (startDrill [\<lparr>position = LEFT, targetMakes = None, targetAttempts = Some 2\<rparr>,
                        \<lparr>position = LEFT, targetMakes = None, targetAttempts = Some 2\<rparr>] 0)) \<and>
   (\<exists>s. applyShots
      (Some (startDrill [\<lparr>position = LEFT, targetMakes = None, targetAttempts = Some 2\<rparr>,
                         \<lparr>position = LEFT, targetMakes = None, targetAttempts = Some 2\<rparr>] 0))
      [(Some (startDrill [\<lparr>position = LEFT, targetMakes = None, targetAttempts = Some 2\<rparr>,
                          \<lparr>position = LEFT, targetMakes = None, targetAttempts = Some 2\<rparr>] 0),
          MAKE, LEFT, 1, 1)] = Inr (Some s) \<and> currentStepIndex s = 0) \<and>
   (\<exists>s1 s2. applyShots
      (Some (startDrill [\<lparr>position = LEFT, targetMakes = None, targetAttempts = Some 2\<rparr>,
                         \<lparr>position = LEFT, targetMakes = None, targetAttempts = Some 2\<rparr>] 0))
      [(Some (startDrill [\<lparr>position = LEFT, targetMakes = None, targetAttempts = Some 2\<rparr>,
                          \<lparr>position = LEFT, targetMakes = None, targetAttempts = Some 2\<rparr>] 0),
          MAKE, LEFT, 1, 1),
       (Some (startDrill [\<lparr>position = LEFT, targetMakes = None, targetAttempts = Some 2\<rparr>,
                          \<lparr>position = LEFT, targetMakes = None, targetAttempts = Some 2\<rparr>] 0),
          MISS, LEFT, 2, 2)] = Inr (Some s1) \<and>
      currentStepIndex s1 = 1 \<and> isActive s1 \<and> \<not> completed s1 \<and>
      attemptsAt LEFT (shots s1) = 2 \<and>
      handleShotRecorded
        (Some (startDrill [\<lparr>position = LEFT, targetMakes = None, targetAttempts = Some 2\<rparr>,
                           \<lparr>position = LEFT, targetMakes = None, targetAttempts = Some 2\<rparr>] 0))
        (Some s1) MAKE LEFT 3 3 = Inr (Some s2) \<and>
      currentStepIndex s2 = 2 \<and> completed s2 \<and> \<not> isActive s2 \<and>
      attemptsAt LEFT (shots s2) = 3)"
proof -
  let ?st = "\<lparr>position = LEFT, targetMakes = None, targetAttempts = Some 2\<rparr>"
  let ?c = "Some (startDrill [?st, ?st] 0)"
  let ?es = "[(?c, MAKE, LEFT, 1::nat, 1::nat), (?c, MISS, LEFT, 2, 2)]"
  have T: "(1::nat) \<le> 2" by simp
  have st: "?st = \<lparr>position = LEFT, targetMakes = None, targetAttempts = Some (int 2)\<rparr>"
    by simp
  have len: "length ?es = 2" by simp
  have guard: "passesGuard ?c" by (simp add: passesGuard_def startDrill_def)
  have zone: "\<forall>e\<in>set ?es. passesGuard (fst e) \<and> fst (snd (snd e)) = LEFT"
    using guard by simp
  note w = repeated_zone_counts_whole_log [OF T st len zone guard, of 0 MAKE 3 3]
  from w have "\<exists>s. applyShots (Some (startDrill [?st, ?st] 0)) (take 1 ?es) = Inr (Some s) \<and>
      currentStepIndex s = 0"
    by (elim conjE allE[of _ 1]) simp
  then have first: "\<exists>s. applyShots (Some (startDrill [?st, ?st] 0)) [(?c, MAKE, LEFT, 1, 1)] =
      Inr (Some s) \<and> currentStepIndex s = 0"
    by simp
  from w first guard show ?thesis by simp
qed

end
